theory Spec2Isabelle
  imports Complex_Main
begin

section \<open>The halo-model power-spectrum engine of halo.py\<close>

text \<open>
  A shallow embedding of the classes \<^verbatim>\<open>Halo\<close>, \<^verbatim>\<open>HaloExclusion\<close> and \<^verbatim>\<open>HaloFit\<close> of
  \<^verbatim>\<open>halo.py\<close>. Floating-point numbers are idealised as reals and an array argument \<open>k\<close>
  as one of its entries. An object is a record of its attributes and every method takes
  the object and returns the updated one. An attribute that a method creates on first use
  (the splines, \<^verbatim>\<open>n_bar\<close>) is an option: \<open>None\<close> is the attribute that does not exist yet,
  and reading it is Python's \<^verbatim>\<open>AttributeError\<close>. What Python raises is a value \<open>Inl\<close> of
  the result type; the object as an exception leaves it is not modelled. Arithmetic on
  numpy floats does not raise (a division by zero gives \<^verbatim>\<open>inf\<close> or \<^verbatim>\<open>nan\<close> and a warning),
  so it has no error branch here.
\<close>

subsection \<open>Errors\<close>

datatype error =
    AttributeError string
  | KeyError string
  | IndexError
  | ValueError
  | ZeroDivisionError
  | IntegrateError

definition bindE :: "error + 'a \<Rightarrow> ('a \<Rightarrow> error + 'b) \<Rightarrow> error + 'b" where
  "bindE m f = (case m of Inl e \<Rightarrow> Inl e | Inr x \<Rightarrow> f x)"

text \<open>A \<^verbatim>\<open>for\<close> loop that fills an array entry by entry and stops at the first exception.\<close>

fun mapE :: "('a \<Rightarrow> error + 'b) \<Rightarrow> 'a list \<Rightarrow> error + 'b list" where
  "mapE f [] = Inr []"
| "mapE f (x # xs) = bindE (f x) (\<lambda>y. bindE (mapE f xs) (\<lambda>ys. Inr (y # ys)))"

definition attr :: "string \<Rightarrow> 'a option \<Rightarrow> error + 'a" where
  "attr name a = (case a of None \<Rightarrow> Inl (AttributeError name) | Some v \<Rightarrow> Inr v)"

definition getitem :: "(string \<rightharpoonup> real) \<Rightarrow> string \<Rightarrow> error + real" where
  "getitem d key = (case d key of None \<Rightarrow> Inl (KeyError key) | Some v \<Rightarrow> Inr v)"

subsection \<open>Collaborators\<close>

text \<open>
  The modules \<^verbatim>\<open>defaults\<close>, \<^verbatim>\<open>hod\<close>, \<^verbatim>\<open>mass_function\<close> and \<^verbatim>\<open>cosmology\<close> and the libraries
  numpy and scipy are used by \<^verbatim>\<open>halo.py\<close> through the attributes and functions below; they
  are parameters of the model. A call into scipy's quadrature may raise, so its result
  is a sum.
\<close>

record precision =
  halo_npoints :: nat
  halo_precision :: real
  global_precision :: real
  divmax :: nat

record hod =
  first_moment :: "real \<Rightarrow> real"
  second_moment :: "real \<Rightarrow> real"
  first_moment_zero :: real
  second_moment_zero :: real

record mass_function =
  mf_nu_min :: real
  mf_nu_max :: real
  mf_ln_mass_min :: real
  mf_m_star :: real
  mf_nu_array :: "real list"
  mf_ln_mass_array :: "real list"
  mf_nu :: "real \<Rightarrow> real"
  mf_mass :: "real \<Rightarrow> real"
  mf_f_nu :: "real \<Rightarrow> real"
  mf_bias_nu :: "real \<Rightarrow> real"

record cosmology =
  cosmo_delta_v :: real
  cosmo_rho_bar :: real
  cosmo_h :: real
  cosmo_dict :: "string \<rightharpoonup> real"
  cosmo_linear_power :: "real \<Rightarrow> real"
  cosmo_delta_k :: "real \<Rightarrow> real"
  cosmo_omega_m :: real
  cosmo_omega_l :: real
  cosmo_w :: "real \<Rightarrow> real"

record env =
  default_precision :: precision
  romberg :: "(real \<Rightarrow> real) \<Rightarrow> real \<Rightarrow> real \<Rightarrow> real \<Rightarrow> real \<Rightarrow> nat \<Rightarrow> error + real"
  InterpolatedUnivariateSpline :: "real list \<Rightarrow> real list \<Rightarrow> nat \<Rightarrow> real \<Rightarrow> real"
  spline_derivatives :: "real list \<Rightarrow> real list \<Rightarrow> nat \<Rightarrow> real \<Rightarrow> real list"
  sici :: "real \<Rightarrow> real \<times> real"
  hyp2f1 :: "real \<Rightarrow> real \<Rightarrow> real \<Rightarrow> real \<Rightarrow> real"
  SingleEpoch :: "real \<Rightarrow> (string \<rightharpoonup> real) option \<Rightarrow> cosmology"
  MassFunction :: "real \<Rightarrow> cosmology \<Rightarrow> (string \<rightharpoonup> real) \<Rightarrow> mass_function"
  HODZheng :: hod
  default_halo_dict :: "string \<rightharpoonup> real"
  mass_set_cosmology_object :: "cosmology \<Rightarrow> mass_function \<Rightarrow> mass_function"
  mass_set_halo :: "(string \<rightharpoonup> real) \<Rightarrow> mass_function \<Rightarrow> mass_function"

text \<open>
  \<^verbatim>\<open>integrate.romberg(f, a, b, vec_func=True, tol=..., rtol=..., divmax=...)\<close> with the
  three precision knobs of \<^verbatim>\<open>defaults.default_precision\<close>, as every call site passes them.
\<close>

definition integrate_romberg :: "env \<Rightarrow> (real \<Rightarrow> real) \<Rightarrow> real \<Rightarrow> real \<Rightarrow> error + real" where
  "integrate_romberg e f a b =
     romberg e f a b (global_precision (default_precision e))
       (halo_precision (default_precision e)) (divmax (default_precision e))"

text \<open>\<^verbatim>\<open>numpy.linspace(start, stop, num)\<close>.\<close>

definition linspace :: "real \<Rightarrow> real \<Rightarrow> nat \<Rightarrow> real list" where
  "linspace start stop num =
     map (\<lambda>i. start + real i * ((stop - start) / real (num - 1))) [0..<num]"

subsection \<open>The object\<close>

record halo =
  k_min :: real
  k_max :: real
  ln_k_max :: real
  ln_k_min :: real
  ln_k_array :: "real list"
  redshift :: real
  cosmo :: cosmology
  cosmo_dict_attr :: "(string \<rightharpoonup> real) option"
  halo_dict :: "string \<rightharpoonup> real"
  mass :: mass_function
  c0 :: real
  beta :: real
  alpha :: real
  delta_v :: real
  rho_bar :: real
  self_h :: real
  local_hod :: hod
  n_bar_over_rho_bar :: "real option"
  n_bar :: "real option"
  ln_r_v_spline :: "(real \<Rightarrow> real) option"
  ln_concen_spline :: "(real \<Rightarrow> real) option"
  ln_halo_norm_spline :: "(real \<Rightarrow> real) option"
  initialized_h_m :: bool
  initialized_h_g :: bool
  initialized_pp_mm :: bool
  initialized_pp_gm :: bool
  initialized_pp_gg :: bool
  h_m_spline :: "(real \<Rightarrow> real) option"
  h_g_spline :: "(real \<Rightarrow> real) option"
  pp_mm_spline :: "(real \<Rightarrow> real) option"
  pp_gm_spline :: "(real \<Rightarrow> real) option"
  pp_gg_spline :: "(real \<Rightarrow> real) option"

subsection \<open>Halo geometry and the profile transform\<close>

text \<open>
  The public accessors read the geometry splines. They are called from the integrands,
  which the quadrature evaluates: a missing spline would raise \<^verbatim>\<open>AttributeError\<close> at the
  first evaluation. In the model each build looks the attributes of its integrand up
  before it integrates (\<open>geometry_attrs\<close>, and \<open>attr\<close> for a mean density that the
  integrand divides by), and the integrands apply \<open>the\<close> to an attribute that is there.
\<close>

definition Halo_virial_radius :: "'a halo_scheme \<Rightarrow> real \<Rightarrow> real" where
  "Halo_virial_radius s m = exp (the (ln_r_v_spline s) (ln m))"

definition Halo_concentration :: "'a halo_scheme \<Rightarrow> real \<Rightarrow> real" where
  "Halo_concentration s m = exp (the (ln_concen_spline s) (ln m))"

definition Halo_halo_normalization :: "'a halo_scheme \<Rightarrow> real \<Rightarrow> real" where
  "Halo_halo_normalization s m = exp (the (ln_halo_norm_spline s) (ln m))"

definition geometry_attrs :: "'a halo_scheme \<Rightarrow> error + unit" where
  "geometry_attrs s =
     bindE (attr ''_ln_concen_spline'' (ln_concen_spline s)) (\<lambda>_.
     bindE (attr ''_ln_r_v_spline'' (ln_r_v_spline s)) (\<lambda>_. Inr ()))"

definition Halo_y :: "env \<Rightarrow> 'a halo_scheme \<Rightarrow> real \<Rightarrow> real \<Rightarrow> real" where
  "Halo_y e s ln_k m =
     (let k = exp ln_k / self_h s;
          con = Halo_concentration s m;
          con_plus = 1 + con;
          z = k * Halo_virial_radius s m / con;
          si_z = fst (sici e z);
          ci_z = snd (sici e z);
          si_cz = fst (sici e (con_plus * z));
          ci_cz = snd (sici e (con_plus * z));
          rho_km = cos z * (ci_cz - ci_z) + sin z * (si_cz - si_z)
                   - sin (con * z) / (con_plus * z);
          mass_k = ln con_plus - con / con_plus
      in rho_km / mass_k)"

definition Halo__concentration :: "'a halo_scheme \<Rightarrow> real \<Rightarrow> real" where
  "Halo__concentration s m = c0 s * (m / mf_m_star (mass s)) powr beta s"

definition Halo__halo_normalization :: "env \<Rightarrow> 'a halo_scheme \<Rightarrow> real \<Rightarrow> real" where
  "Halo__halo_normalization e s m =
     (let con = Halo__concentration s m;
          rho_s = (rho_bar s * delta_v s * con * con * con) / 3;
          rho_norm = (con powr (3 + alpha s)
                      * hyp2f1 e (3 + alpha s) (3 + alpha s) (4 + alpha s) (- 1 * con))
                     / (3 + alpha s)
      in rho_s / rho_norm)"

definition Halo__virial_radius :: "'a halo_scheme \<Rightarrow> real \<Rightarrow> real" where
  "Halo__virial_radius s m =
     (let r3 = 3 * m / (4 * pi * delta_v s * rho_bar s) in r3 powr (1 / 3))"

definition Halo__initialize_halo_splines :: "env \<Rightarrow> 'a halo_scheme \<Rightarrow> error + 'a halo_scheme" where
  "Halo__initialize_halo_splines e s =
     bindE (mapE (\<lambda>idx.
              if idx < length (mf_ln_mass_array (mass s)) then
                (let m = exp (mf_ln_mass_array (mass s) ! idx)
                 in Inr (ln (Halo__virial_radius s m),
                         ln (Halo__concentration s m),
                         ln (Halo__halo_normalization e s m)))
              else Inl IndexError)
            [0..<length (mf_nu_array (mass s))]) (\<lambda>rows.
     Inr (s\<lparr>ln_r_v_spline := Some (InterpolatedUnivariateSpline e
                 (mf_ln_mass_array (mass s)) (map fst rows) 3),
            ln_concen_spline := Some (InterpolatedUnivariateSpline e
                 (mf_ln_mass_array (mass s)) (map (fst \<circ> snd) rows) 3),
            ln_halo_norm_spline := Some (InterpolatedUnivariateSpline e
                 (mf_ln_mass_array (mass s)) (map (snd \<circ> snd) rows) 3)\<rparr>))"

subsection \<open>Mean galaxy density\<close>

definition Halo__nbar_integrand :: "'a halo_scheme \<Rightarrow> real \<Rightarrow> real" where
  "Halo__nbar_integrand s ln_nu =
     (let nu = exp ln_nu; m = mf_mass (mass s) nu
      in nu * first_moment (local_hod s) m * mf_f_nu (mass s) nu / m)"

definition Halo__calculate_n_bar :: "env \<Rightarrow> 'a halo_scheme \<Rightarrow> error + 'a halo_scheme" where
  "Halo__calculate_n_bar e s =
     (let nu_min = mf_nu_min (mass s);
          nu_min = (if first_moment_zero (local_hod s) > - 1 \<and>
                       first_moment_zero (local_hod s) > exp (mf_ln_mass_min (mass s))
                    then mf_nu (mass s) (first_moment_zero (local_hod s)) else nu_min)
      in bindE (integrate_romberg e (Halo__nbar_integrand s)
                  (ln nu_min) (ln (mf_nu_max (mass s)))) (\<lambda>v.
         Inr (s\<lparr>n_bar_over_rho_bar := Some v, n_bar := Some (v * rho_bar s)\<rparr>)))"

subsection \<open>The five cached terms\<close>

definition Halo__h_m_integrand :: "env \<Rightarrow> 'a halo_scheme \<Rightarrow> real \<Rightarrow> real \<Rightarrow> real" where
  "Halo__h_m_integrand e s ln_nu ln_k =
     (let nu = exp ln_nu; m = mf_mass (mass s) nu
      in nu * mf_f_nu (mass s) nu * mf_bias_nu (mass s) nu * Halo_y e s ln_k m)"

definition Halo__initialize_h_m :: "env \<Rightarrow> 'a halo_scheme \<Rightarrow> error + 'a halo_scheme" where
  "Halo__initialize_h_m e s =
     bindE (geometry_attrs s) (\<lambda>_.
     bindE (mapE (\<lambda>ln_k. integrate_romberg e (\<lambda>ln_nu. Halo__h_m_integrand e s ln_nu ln_k)
                    (ln (mf_nu_min (mass s))) (ln (mf_nu_max (mass s))))
              (ln_k_array s)) (\<lambda>h_m_array.
     Inr (s\<lparr>h_m_spline := Some (InterpolatedUnivariateSpline e (ln_k_array s) h_m_array 3),
            initialized_h_m := True\<rparr>)))"

definition Halo__h_g_integrand :: "env \<Rightarrow> 'a halo_scheme \<Rightarrow> real \<Rightarrow> real \<Rightarrow> real" where
  "Halo__h_g_integrand e s ln_nu ln_k =
     (let nu = exp ln_nu; m = mf_mass (mass s) nu
      in nu * mf_f_nu (mass s) nu * mf_bias_nu (mass s) nu * Halo_y e s ln_k m
           * first_moment (local_hod s) m / (m * the (n_bar_over_rho_bar s)))"

definition Halo__initialize_h_g :: "env \<Rightarrow> 'a halo_scheme \<Rightarrow> error + 'a halo_scheme" where
  "Halo__initialize_h_g e s =
     (let nu_min = mf_nu_min (mass s);
          nu_min = (if first_moment_zero (local_hod s) > - 1 \<and>
                       first_moment_zero (local_hod s) > exp (mf_ln_mass_min (mass s))
                    then mf_nu (mass s) (first_moment_zero (local_hod s)) else nu_min)
      in bindE (geometry_attrs s) (\<lambda>_.
         bindE (attr ''n_bar_over_rho_bar'' (n_bar_over_rho_bar s)) (\<lambda>_.
         bindE (mapE (\<lambda>ln_k. integrate_romberg e (\<lambda>ln_nu. Halo__h_g_integrand e s ln_nu ln_k)
                        (ln (mf_nu_min (mass s))) (ln (mf_nu_max (mass s))))
                  (ln_k_array s)) (\<lambda>h_g_array.
         Inr (s\<lparr>h_g_spline := Some (InterpolatedUnivariateSpline e (ln_k_array s) h_g_array 3),
                initialized_h_g := True\<rparr>)))))"

definition Halo__pp_mm_integrand :: "env \<Rightarrow> 'a halo_scheme \<Rightarrow> real \<Rightarrow> real \<Rightarrow> real" where
  "Halo__pp_mm_integrand e s ln_nu ln_k =
     (let nu = exp ln_nu; m = mf_mass (mass s) nu; y = Halo_y e s ln_k m
      in nu * mf_f_nu (mass s) nu * m * y * y)"

definition Halo__initialize_pp_mm :: "env \<Rightarrow> 'a halo_scheme \<Rightarrow> error + 'a halo_scheme" where
  "Halo__initialize_pp_mm e s =
     bindE (geometry_attrs s) (\<lambda>_.
     bindE (mapE (\<lambda>ln_k.
              bindE (integrate_romberg e (\<lambda>ln_nu. Halo__pp_mm_integrand e s ln_nu ln_k)
                       (ln (mf_nu_min (mass s))) (ln (mf_nu_max (mass s)))) (\<lambda>pp_mm.
              Inr (pp_mm / rho_bar s)))
              (ln_k_array s)) (\<lambda>pp_mm_array.
     Inr (s\<lparr>pp_mm_spline := Some (InterpolatedUnivariateSpline e (ln_k_array s) pp_mm_array 3),
            initialized_pp_mm := True\<rparr>)))"

definition Halo__pp_gg_integrand :: "env \<Rightarrow> 'a halo_scheme \<Rightarrow> real \<Rightarrow> real \<Rightarrow> real" where
  "Halo__pp_gg_integrand e s ln_nu ln_k =
     (let nu = exp ln_nu; m = mf_mass (mass s) nu; y = Halo_y e s ln_k m;
          n_pair = second_moment (local_hod s) m
      in if n_pair < 1
         then nu * mf_f_nu (mass s) nu * n_pair * y / (m * the (n_bar s) * the (n_bar s))
         else nu * mf_f_nu (mass s) nu * n_pair * y * y / (m * the (n_bar s) * the (n_bar s)))"

definition Halo__initialize_pp_gg :: "env \<Rightarrow> 'a halo_scheme \<Rightarrow> error + 'a halo_scheme" where
  "Halo__initialize_pp_gg e s =
     (let nu_min = mf_nu_min (mass s);
          nu_min = (if second_moment_zero (local_hod s) > - 1 \<and>
                       second_moment_zero (local_hod s) > exp (mf_ln_mass_min (mass s))
                    then mf_nu (mass s) (second_moment_zero (local_hod s)) else nu_min)
      in bindE (geometry_attrs s) (\<lambda>_.
         bindE (attr ''n_bar'' (n_bar s)) (\<lambda>_.
         bindE (mapE (\<lambda>ln_k.
                  bindE (integrate_romberg e (\<lambda>ln_nu. Halo__pp_gg_integrand e s ln_nu ln_k)
                           (ln nu_min) (ln (mf_nu_max (mass s)))) (\<lambda>pp_gg.
                  Inr (pp_gg * rho_bar s)))
                  (ln_k_array s)) (\<lambda>pp_gg_array.
         Inr (s\<lparr>pp_gg_spline := Some (InterpolatedUnivariateSpline e (ln_k_array s) pp_gg_array 3),
                initialized_pp_gg := True\<rparr>)))))"

definition Halo__pp_gm_integrand :: "env \<Rightarrow> 'a halo_scheme \<Rightarrow> real \<Rightarrow> real \<Rightarrow> real" where
  "Halo__pp_gm_integrand e s ln_nu ln_k =
     (let nu = exp ln_nu; m = mf_mass (mass s) nu; y = Halo_y e s ln_k m;
          n_exp = first_moment (local_hod s) (mf_mass (mass s) nu)
      in if n_exp < 1
         then nu * mf_f_nu (mass s) nu * n_exp * y
         else nu * mf_f_nu (mass s) nu * n_exp * y * y)"

definition Halo__initialize_pp_gm :: "env \<Rightarrow> 'a halo_scheme \<Rightarrow> error + 'a halo_scheme" where
  "Halo__initialize_pp_gm e s =
     (let nu_min = mf_nu_min (mass s);
          nu_min = (if first_moment_zero (local_hod s) > - 1 \<and>
                       first_moment_zero (local_hod s) > exp (mf_ln_mass_min (mass s))
                    then mf_nu (mass s) (first_moment_zero (local_hod s)) else nu_min)
      in bindE (geometry_attrs s) (\<lambda>_.
         bindE (mapE (\<lambda>ln_k.
                  bindE (integrate_romberg e (\<lambda>ln_nu. Halo__pp_gm_integrand e s ln_nu ln_k)
                           (ln nu_min) (ln (mf_nu_max (mass s)))) (\<lambda>pp_gm.
                  bindE (attr ''n_bar'' (n_bar s)) (\<lambda>nb.
                  Inr (pp_gm / nb))))
                  (ln_k_array s)) (\<lambda>pp_gm_array.
         Inr (s\<lparr>pp_gm_spline := Some (InterpolatedUnivariateSpline e (ln_k_array s) pp_gm_array 3),
                initialized_pp_gm := True\<rparr>))))"

text \<open>
  Reading a term: \<^verbatim>\<open>numpy.where(k_min <= k <= k_max, spline(log(k)), 0.0)\<close>. Both
  branches of \<^verbatim>\<open>numpy.where\<close> are evaluated, so the spline attribute is read for every k.
\<close>

definition term_read :: "string \<Rightarrow> (real \<Rightarrow> real) option \<Rightarrow> 'a halo_scheme \<Rightarrow> real \<Rightarrow> error + real" where
  "term_read name spl s k =
     bindE (attr name spl) (\<lambda>sp.
     Inr (if k \<ge> k_min s \<and> k \<le> k_max s then sp (ln k) else 0))"

definition Halo__h_m :: "'a halo_scheme \<Rightarrow> real \<Rightarrow> error + real" where
  "Halo__h_m s k = term_read ''_h_m_spline'' (h_m_spline s) s k"

definition Halo__pp_mm :: "'a halo_scheme \<Rightarrow> real \<Rightarrow> error + real" where
  "Halo__pp_mm s k = term_read ''_pp_mm_spline'' (pp_mm_spline s) s k"

definition Halo__pp_gm :: "'a halo_scheme \<Rightarrow> real \<Rightarrow> error + real" where
  "Halo__pp_gm s k = term_read ''_pp_gm_spline'' (pp_gm_spline s) s k"

definition Halo__h_g :: "'a halo_scheme \<Rightarrow> real \<Rightarrow> error + real" where
  "Halo__h_g s k = term_read ''_h_g_spline'' (h_g_spline s) s k"

definition Halo__pp_gg :: "'a halo_scheme \<Rightarrow> real \<Rightarrow> error + real" where
  "Halo__pp_gg s k = term_read ''_pp_gg_spline'' (pp_gg_spline s) s k"

subsection \<open>Power spectra of the base class\<close>

definition Halo_linear_power :: "'a halo_scheme \<Rightarrow> real \<Rightarrow> real" where
  "Halo_linear_power s k = cosmo_linear_power (cosmo s) k"

definition Halo_power_mm :: "env \<Rightarrow> 'a halo_scheme \<Rightarrow> real \<Rightarrow> error + (real \<times> 'a halo_scheme)" where
  "Halo_power_mm e s k =
     bindE (if \<not> initialized_h_m s then Halo__initialize_h_m e s else Inr s) (\<lambda>s.
     bindE (if \<not> initialized_pp_mm s then Halo__initialize_pp_mm e s else Inr s) (\<lambda>s.
     bindE (Halo__h_m s k) (\<lambda>h_m1.
     bindE (Halo__h_m s k) (\<lambda>h_m2.
     bindE (Halo__pp_mm s k) (\<lambda>pp_mm.
     Inr (Halo_linear_power s k * h_m1 * h_m2 + pp_mm, s))))))"

definition Halo_power_gm :: "env \<Rightarrow> 'a halo_scheme \<Rightarrow> real \<Rightarrow> error + (real \<times> 'a halo_scheme)" where
  "Halo_power_gm e s k =
     bindE (if \<not> initialized_h_m s then Halo__initialize_h_m e s else Inr s) (\<lambda>s.
     bindE (if \<not> initialized_h_g s then Halo__initialize_h_g e s else Inr s) (\<lambda>s.
     bindE (if \<not> initialized_pp_gm s then Halo__initialize_pp_gm e s else Inr s) (\<lambda>s.
     bindE (Halo__h_g s k) (\<lambda>h_g.
     bindE (Halo__h_m s k) (\<lambda>h_m.
     bindE (Halo__pp_gm s k) (\<lambda>pp_gm.
     Inr (Halo_linear_power s k * h_g * h_m + pp_gm, s)))))))"


definition Halo_power_gg :: "env \<Rightarrow> 'a halo_scheme \<Rightarrow> real \<Rightarrow> error + (real \<times> 'a halo_scheme)" where
  "Halo_power_gg e s k =
     bindE (if \<not> initialized_h_g s then Halo__initialize_h_g e s else Inr s) (\<lambda>s.
     bindE (if \<not> initialized_pp_gg s then Halo__initialize_pp_gg e s else Inr s) (\<lambda>s.
     bindE (Halo__h_g s k) (\<lambda>h_g1.
     bindE (Halo__h_g s k) (\<lambda>h_g2.
     bindE (Halo__pp_gg s k) (\<lambda>pp_gg.
     Inr (Halo_linear_power s k * h_g1 * h_g2 + pp_gg, s))))))"

subsection \<open>Mutators and the constructor\<close>

definition Halo_set_hod :: "env \<Rightarrow> 'a halo_scheme \<Rightarrow> hod \<Rightarrow> error + 'a halo_scheme" where
  "Halo_set_hod e s input_hod =
     bindE (Halo__calculate_n_bar e (s\<lparr>local_hod := input_hod\<rparr>)) (\<lambda>s.
     Inr (s\<lparr>initialized_h_g := False,
            initialized_pp_mm := False,
            initialized_pp_gm := False,
            initialized_pp_gg := False\<rparr>))"

definition Halo_set_halo :: "env \<Rightarrow> 'a halo_scheme \<Rightarrow> (string \<rightharpoonup> real) \<Rightarrow> error + 'a halo_scheme" where
  "Halo_set_halo e s hdict =
     bindE (getitem hdict ''c0'') (\<lambda>c0v.
     bindE (if 1 + redshift s = 0 then Inl ZeroDivisionError else Inr (c0v / (1 + redshift s))) (\<lambda>c0'.
     bindE (getitem hdict ''beta'') (\<lambda>beta'.
     (let s = s\<lparr>c0 := c0', beta := beta', alpha := - 1\<rparr>;
          s = s\<lparr>mass := mass_set_halo e hdict (mass s)\<rparr>
      in Halo_set_hod e s (local_hod s)))))"

definition Halo_set_cosmology ::
  "env \<Rightarrow> 'a halo_scheme \<Rightarrow> (string \<rightharpoonup> real) \<Rightarrow> real option \<Rightarrow> error + 'a halo_scheme" where
  "Halo_set_cosmology e s cd redshift_arg =
     (let z = (case redshift_arg of None \<Rightarrow> redshift s | Some z \<Rightarrow> z);
          s = s\<lparr>cosmo_dict_attr := Some cd, redshift := z, cosmo := SingleEpoch e z (Some cd)\<rparr>;
          s = s\<lparr>delta_v := cosmo_delta_v (cosmo s), rho_bar := cosmo_rho_bar (cosmo s),
                 self_h := cosmo_h (cosmo s)\<rparr>
      in bindE (getitem (halo_dict s) ''c0'') (\<lambda>c0v.
         bindE (if 1 + z = 0 then Inl ZeroDivisionError else Inr (c0v / (1 + z))) (\<lambda>c0'.
         (let s = s\<lparr>c0 := c0'\<rparr>;
              s = s\<lparr>mass := mass_set_cosmology_object e (cosmo s) (mass s)\<rparr>
          in bindE (Halo__calculate_n_bar e s) (\<lambda>s.
             bindE (Halo__initialize_halo_splines e s) (\<lambda>s.
             Inr (s\<lparr>initialized_h_m := False,
                    initialized_h_g := False,
                    initialized_pp_mm := False,
                    initialized_pp_gm := False,
                    initialized_pp_gg := False\<rparr>)))))))"

definition Halo_set_redshift :: "env \<Rightarrow> 'a halo_scheme \<Rightarrow> real \<Rightarrow> error + 'a halo_scheme" where
  "Halo_set_redshift e s z =
     (if z \<noteq> redshift s then Halo_set_cosmology e s (cosmo_dict (cosmo s)) (Some z) else Inr s)"

text \<open>
  \<^verbatim>\<open>Halo.__init__\<close>. The attributes are assigned in the order of the source; the five
  flags are assigned last, after \<^verbatim>\<open>_calculate_n_bar\<close> and \<^verbatim>\<open>_initialize_halo_splines\<close>
  have run. The extension part of the record is the argument \<open>ext\<close>.
\<close>

definition Halo_init ::
  "env \<Rightarrow> 'a \<Rightarrow> real \<Rightarrow> hod option \<Rightarrow> cosmology option \<Rightarrow> mass_function option
     \<Rightarrow> (string \<rightharpoonup> real) option \<Rightarrow> error + 'a halo_scheme" where
  "Halo_init e ext z input_hod cosmo_single_epoch mass_func halo_dict_arg =
     (let cosmo_v = (case cosmo_single_epoch of None \<Rightarrow> SingleEpoch e z None | Some c \<Rightarrow> c);
          hdict = (case halo_dict_arg of None \<Rightarrow> default_halo_dict e | Some d \<Rightarrow> d);
          mass_v = (case mass_func of None \<Rightarrow> MassFunction e z cosmo_v hdict | Some m \<Rightarrow> m)
      in bindE (getitem hdict ''c0'') (\<lambda>c0v.
         bindE (if 1 + z = 0 then Inl ZeroDivisionError else Inr (c0v / (1 + z))) (\<lambda>c0'.
         bindE (getitem hdict ''beta'') (\<lambda>beta'.
         (let s = \<lparr>k_min = 0.001, k_max = 100,
                   ln_k_max = ln 100, ln_k_min = ln 0.001,
                   ln_k_array = linspace (ln 0.001) (ln 100) (halo_npoints (default_precision e)),
                   redshift = z, cosmo = cosmo_v, cosmo_dict_attr = None, halo_dict = hdict,
                   mass = mass_v, c0 = c0', beta = beta', alpha = - 1,
                   delta_v = cosmo_delta_v cosmo_v, rho_bar = cosmo_rho_bar cosmo_v,
                   self_h = cosmo_h cosmo_v,
                   local_hod = (case input_hod of None \<Rightarrow> HODZheng e | Some h \<Rightarrow> h),
                   n_bar_over_rho_bar = None, n_bar = None,
                   ln_r_v_spline = None, ln_concen_spline = None, ln_halo_norm_spline = None,
                   initialized_h_m = False, initialized_h_g = False,
                   initialized_pp_mm = False, initialized_pp_gm = False,
                   initialized_pp_gg = False,
                   h_m_spline = None, h_g_spline = None, pp_mm_spline = None,
                   pp_gm_spline = None, pp_gg_spline = None, \<dots> = ext\<rparr>
          in bindE (Halo__calculate_n_bar e s) (\<lambda>s.
             bindE (Halo__initialize_halo_splines e s) (\<lambda>s.
             Inr (s\<lparr>initialized_h_m := False,
                    initialized_h_g := False,
                    initialized_pp_mm := False,
                    initialized_pp_gm := False,
                    initialized_pp_gg := False\<rparr>))))))))"

subsection \<open>The class HaloExclusion\<close>

definition HaloExclusion_init ::
  "env \<Rightarrow> real \<Rightarrow> hod option \<Rightarrow> cosmology option \<Rightarrow> mass_function option
     \<Rightarrow> (string \<rightharpoonup> real) option \<Rightarrow> error + halo" where
  "HaloExclusion_init e z input_hod cosmo_single_epoch mass_func halo_dict_arg =
     Halo_init e () z input_hod cosmo_single_epoch mass_func halo_dict_arg"

definition HaloExclusion__mass_window :: "env \<Rightarrow> 'a halo_scheme \<Rightarrow> real \<Rightarrow> real \<Rightarrow> real" where
  "HaloExclusion__mass_window e s m ln_k =
     (let k = exp ln_k;
          R = 2 * Halo_virial_radius s m;
          kR = k * R
      in (kR * cos kR + kR * kR * kR * snd (sici e kR) + (2 - kR * kR) * sin kR) / (3 * kR))"

definition HaloExclusion__h_g_integrand :: "env \<Rightarrow> 'a halo_scheme \<Rightarrow> real \<Rightarrow> real \<Rightarrow> real" where
  "HaloExclusion__h_g_integrand e s ln_nu ln_k =
     (let nu = exp ln_nu; m = mf_mass (mass s) nu
      in nu * HaloExclusion__mass_window e s m ln_k * mf_f_nu (mass s) nu
           * mf_bias_nu (mass s) nu * Halo_y e s ln_k m
           * first_moment (local_hod s) m / (m * the (n_bar_over_rho_bar s)))"

definition HaloExclusion__initialize_h_g :: "env \<Rightarrow> 'a halo_scheme \<Rightarrow> error + 'a halo_scheme" where
  "HaloExclusion__initialize_h_g e s =
     (let nu_min = mf_nu_min (mass s);
          nu_min = (if first_moment_zero (local_hod s) > - 1 \<and>
                       first_moment_zero (local_hod s) > exp (mf_ln_mass_min (mass s))
                    then mf_nu (mass s) (first_moment_zero (local_hod s)) else nu_min)
      in bindE (geometry_attrs s) (\<lambda>_.
         bindE (attr ''n_bar_over_rho_bar'' (n_bar_over_rho_bar s)) (\<lambda>_.
         bindE (mapE (\<lambda>ln_k. integrate_romberg e
                        (\<lambda>ln_nu. HaloExclusion__h_g_integrand e s ln_nu ln_k)
                        (ln nu_min) (ln (mf_nu_max (mass s))))
                  (ln_k_array s)) (\<lambda>h_g_array.
         Inr (s\<lparr>h_g_spline := Some (InterpolatedUnivariateSpline e (ln_k_array s) h_g_array 3),
                initialized_h_g := True\<rparr>)))))"

text \<open>\<^verbatim>\<open>power_mm\<close> is inherited from \<^verbatim>\<open>Halo\<close>.\<close>

definition HaloExclusion_power_mm :: "env \<Rightarrow> 'a halo_scheme \<Rightarrow> real \<Rightarrow> error + (real \<times> 'a halo_scheme)" where
  "HaloExclusion_power_mm = Halo_power_mm"

definition HaloExclusion_power_gm :: "env \<Rightarrow> 'a halo_scheme \<Rightarrow> real \<Rightarrow> error + (real \<times> 'a halo_scheme)" where
  "HaloExclusion_power_gm e s k =
     bindE (if \<not> initialized_h_g s then HaloExclusion__initialize_h_g e s else Inr s) (\<lambda>s.
     bindE (if \<not> initialized_pp_gg s then Halo__initialize_pp_gm e s else Inr s) (\<lambda>s.
     bindE (HaloExclusion_power_mm e s k) (\<lambda>(p_mm, s).
     bindE (Halo__h_g s k) (\<lambda>h_g.
     bindE (Halo__h_m s k) (\<lambda>h_m.
     bindE (Halo__pp_gm s k) (\<lambda>pp_gm.
     Inr (p_mm * h_g * h_m + pp_gm, s)))))))"


definition HaloExclusion_power_gg :: "env \<Rightarrow> 'a halo_scheme \<Rightarrow> real \<Rightarrow> error + (real \<times> 'a halo_scheme)" where
  "HaloExclusion_power_gg e s k =
     bindE (if \<not> initialized_h_g s then HaloExclusion__initialize_h_g e s else Inr s) (\<lambda>s.
     bindE (if \<not> initialized_pp_gg s then Halo__initialize_pp_gg e s else Inr s) (\<lambda>s.
     bindE (HaloExclusion_power_mm e s k) (\<lambda>(p_mm, s).
     bindE (Halo__h_g s k) (\<lambda>h_g1.
     bindE (Halo__h_g s k) (\<lambda>h_g2.
     bindE (Halo__pp_gg s k) (\<lambda>pp_gg.
     Inr (p_mm * h_g1 * h_g2 + pp_gg, s)))))))"

subsection \<open>The class HaloFit\<close>















subsection \<open>Properties of a cache\<close>

text \<open>
  Every call into the quadrature returns: the hypothesis under which a rebuild of a
  cache is shown to return.
\<close>

definition romberg_returns :: "env \<Rightarrow> bool" where
  "romberg_returns e = (\<forall>f a b tol rtol dm. \<exists>v. romberg e f a b tol rtol dm = Inr v)"


text \<open>The attributes that the constructor creates exist.\<close>

definition constructed :: "'a halo_scheme \<Rightarrow> bool" where
  "constructed s = (ln_concen_spline s \<noteq> None \<and> ln_r_v_spline s \<noteq> None \<and>
                    n_bar s \<noteq> None \<and> n_bar_over_rho_bar s \<noteq> None)"



subsection \<open>A small concrete configuration\<close>

text \<open>
  Stand-ins for the collaborators, used to run the model on explicit inputs: the
  quadrature is the first level of Romberg's scheme (the trapezoid rule on the whole
  interval), the interpolant holds the first sample, and the k-grid has two points.
\<close>

definition c_precision :: precision where
  "c_precision = \<lparr>halo_npoints = 2, halo_precision = 1.48 / 10 ^ 5,
                   global_precision = 1.48 / 10 ^ 32, divmax = 20\<rparr>"

definition c_hod :: hod where
  "c_hod = \<lparr>first_moment = (\<lambda>m. if m < 3 then 0 else 1 / 2),
            second_moment = (\<lambda>m. if m < 3 then 0 else 1 / 4),
            first_moment_zero = 3, second_moment_zero = - 1\<rparr>"



definition c_cosmology :: cosmology where
  "c_cosmology = \<lparr>cosmo_delta_v = 200, cosmo_rho_bar = 1, cosmo_h = 1,
                   cosmo_dict = Map.empty,
                   cosmo_linear_power = (\<lambda>k. 1), cosmo_delta_k = (\<lambda>k. 1),
                   cosmo_omega_m = 1, cosmo_omega_l = 0, cosmo_w = (\<lambda>z. - 1)\<rparr>"

definition c_mass :: mass_function where
  "c_mass = \<lparr>mf_nu_min = 1, mf_nu_max = 4, mf_ln_mass_min = 0, mf_m_star = 1,
             mf_nu_array = [1], mf_ln_mass_array = [0],
             mf_nu = (\<lambda>m. 2), mf_mass = (\<lambda>nu. nu),
             mf_f_nu = (\<lambda>nu. 1), mf_bias_nu = (\<lambda>nu. 1)\<rparr>"

definition c_halo_dict :: "string \<rightharpoonup> real" where
  "c_halo_dict = [''c0'' \<mapsto> 9, ''beta'' \<mapsto> - 0.13]"

definition c_halo_dict2 :: "string \<rightharpoonup> real" where
  "c_halo_dict2 = [''c0'' \<mapsto> 5, ''beta'' \<mapsto> - 0.2]"

definition c_env :: env where
  "c_env = \<lparr>default_precision = c_precision,
            romberg = (\<lambda>f a b tol rtol dm. Inr ((b - a) * (f a + f b) / 2)),
            InterpolatedUnivariateSpline =
              (\<lambda>xs ys k x. case ys of [] \<Rightarrow> 0 | y # _ \<Rightarrow> y),
            spline_derivatives = (\<lambda>xs ys k x. replicate (Suc k) 0),
            sici = (\<lambda>x. (0, 0)),
            hyp2f1 = (\<lambda>a b c z. 1),
            SingleEpoch = (\<lambda>z d. c_cosmology),
            MassFunction = (\<lambda>z c d. c_mass),
            HODZheng = c_hod,
            default_halo_dict = c_halo_dict,
            mass_set_cosmology_object = (\<lambda>c m. m),
            mass_set_halo = (\<lambda>d m. m)\<rparr>"

text \<open>A quadrature stub that reports the lower limit it was called with.\<close>

definition probe_env :: env where
  "probe_env = c_env\<lparr>romberg := (\<lambda>f a b tol rtol dm. Inr a)\<rparr>"

definition c_halo :: "error + halo" where
  "c_halo = Halo_init c_env () 0 (Some c_hod) (Some c_cosmology) (Some c_mass) (Some c_halo_dict)"

definition c_halo_exclusion :: "error + halo" where
  "c_halo_exclusion =
     HaloExclusion_init c_env 0 (Some c_hod) (Some c_cosmology) (Some c_mass) (Some c_halo_dict)"


definition c_state :: halo where
  "c_state = projr c_halo"

definition c_exclusion_state :: halo where
  "c_exclusion_state = projr c_halo_exclusion"


subsection \<open>The quadrature of scipy\<close>









section \<open>Verification\<close>

subsection \<open>The error monad and the loops\<close>

lemma bindE_Inl [simp]: "bindE (Inl e) f = Inl e"
  by (simp add: bindE_def)

lemma bindE_Inr [simp]: "bindE (Inr x) f = f x"
  by (simp add: bindE_def)

lemma bindE_eq_Inr: "bindE m f = Inr y \<longleftrightarrow> (\<exists>x. m = Inr x \<and> f x = Inr y)"
  by (cases m) simp_all

lemma attr_Some [simp]: "attr name (Some v) = Inr v"
  by (simp add: attr_def)

lemma attr_None [simp]: "attr name None = Inl (AttributeError name)"
  by (simp add: attr_def)

lemma mapE_returns:
  assumes "\<And>x. x \<in> set xs \<Longrightarrow> \<exists>y. f x = Inr y"
  shows "\<exists>ys. mapE f xs = Inr ys"
  using assms
proof (induction xs)
  case Nil
  show ?case by simp
next
  case (Cons x xs)
  from Cons.prems obtain y where y: "f x = Inr y" by auto
  from Cons obtain ys where ys: "mapE f xs = Inr ys" by auto
  show ?case by (simp add: y ys)
qed

lemma mapE_length: "mapE f xs = Inr ys \<Longrightarrow> length ys = length xs"
proof (induction xs arbitrary: ys)
  case Nil
  then show ?case by simp
next
  case (Cons x xs)
  then show ?case by (auto simp: bindE_eq_Inr)
qed

lemma integrate_romberg_returns:
  "romberg_returns e \<Longrightarrow> \<exists>v. integrate_romberg e f a b = Inr v"
  by (simp add: romberg_returns_def integrate_romberg_def)

lemma c_env_romberg: "romberg c_env f a b tol rtol dm = Inr ((b - a) * (f a + f b) / 2)"
  by (simp add: c_env_def)

lemma c_env_returns: "romberg_returns c_env"
  unfolding romberg_returns_def c_env_romberg by blast

subsection \<open>Rebuilding a cache: what changes, and that it returns\<close>

lemma mapE_romberg:
  "romberg_returns e \<Longrightarrow> \<exists>ys. mapE (\<lambda>x. integrate_romberg e (F x) (a x) (b x)) xs = Inr ys"
  by (rule mapE_returns) (rule integrate_romberg_returns)

lemma mapE_romberg_post:
  "romberg_returns e \<Longrightarrow>
     \<exists>ys. mapE (\<lambda>x. bindE (integrate_romberg e (F x) (a x) (b x)) (\<lambda>v. Inr (g x v))) xs = Inr ys"
proof (rule mapE_returns)
  fix x assume "romberg_returns e"
  then obtain v where "integrate_romberg e (F x) (a x) (b x) = Inr v"
    using integrate_romberg_returns by blast
  then show "\<exists>y. bindE (integrate_romberg e (F x) (a x) (b x)) (\<lambda>v. Inr (g x v)) = Inr y"
    by simp
qed

lemma bindE_returns:
  "\<exists>x. m = Inr x \<Longrightarrow> (\<And>x. \<exists>sp. g x = Inr (h sp)) \<Longrightarrow> \<exists>sp. bindE m g = Inr (h sp)"
  by auto

lemma geometry_attrs_constructed: "constructed s \<Longrightarrow> geometry_attrs s = Inr ()"
  by (auto simp: geometry_attrs_def constructed_def)

lemma init_h_m_shape:
  "Halo__initialize_h_m e s = Inr s' \<Longrightarrow>
     \<exists>sp. s' = s\<lparr>h_m_spline := Some sp, initialized_h_m := True\<rparr>"
  by (auto simp: Halo__initialize_h_m_def bindE_eq_Inr)

lemma init_h_m_returns:
  assumes "romberg_returns e" "constructed s"
  shows "\<exists>sp. Halo__initialize_h_m e s = Inr (s\<lparr>h_m_spline := Some sp, initialized_h_m := True\<rparr>)"
  unfolding Halo__initialize_h_m_def
  apply (simp add: geometry_attrs_constructed[OF assms(2)])
  apply (rule bindE_returns)
   apply (rule mapE_romberg[OF assms(1)])
  apply blast
  done

lemma init_pp_mm_shape:
  "Halo__initialize_pp_mm e s = Inr s' \<Longrightarrow>
     \<exists>sp. s' = s\<lparr>pp_mm_spline := Some sp, initialized_pp_mm := True\<rparr>"
  by (auto simp: Halo__initialize_pp_mm_def bindE_eq_Inr)

lemma init_pp_mm_returns:
  assumes "romberg_returns e" "constructed s"
  shows "\<exists>sp. Halo__initialize_pp_mm e s = Inr (s\<lparr>pp_mm_spline := Some sp, initialized_pp_mm := True\<rparr>)"
  unfolding Halo__initialize_pp_mm_def
  apply (simp add: geometry_attrs_constructed[OF assms(2)])
  apply (rule bindE_returns)
   apply (rule mapE_romberg_post[OF assms(1)])
  apply blast
  done

lemma init_h_g_shape:
  "Halo__initialize_h_g e s = Inr s' \<Longrightarrow>
     \<exists>sp. s' = s\<lparr>h_g_spline := Some sp, initialized_h_g := True\<rparr>"
  by (auto simp: Halo__initialize_h_g_def bindE_eq_Inr Let_def)

lemma n_bar_attrs_constructed:
  "constructed s \<Longrightarrow> \<exists>v w. n_bar s = Some v \<and> n_bar_over_rho_bar s = Some w"
  by (auto simp: constructed_def)



lemma excl_init_h_g_returns:
  assumes "romberg_returns e" "constructed s"
  shows "\<exists>sp. HaloExclusion__initialize_h_g e s = Inr (s\<lparr>h_g_spline := Some sp, initialized_h_g := True\<rparr>)"
proof -
  from n_bar_attrs_constructed[OF assms(2)] obtain v w
    where nb: "n_bar s = Some v" "n_bar_over_rho_bar s = Some w" by blast
  show ?thesis
    unfolding HaloExclusion__initialize_h_g_def Let_def
    apply (simp add: geometry_attrs_constructed[OF assms(2)] nb split del: if_split)
    apply (rule bindE_returns)
     apply (rule mapE_romberg[OF assms(1)])
    apply blast
    done
qed

lemma init_pp_gm_shape:
  "Halo__initialize_pp_gm e s = Inr s' \<Longrightarrow>
     \<exists>sp. s' = s\<lparr>pp_gm_spline := Some sp, initialized_pp_gm := True\<rparr>"
  by (auto simp: Halo__initialize_pp_gm_def bindE_eq_Inr Let_def)


lemma init_pp_gg_shape:
  "Halo__initialize_pp_gg e s = Inr s' \<Longrightarrow>
     \<exists>sp. s' = s\<lparr>pp_gg_spline := Some sp, initialized_pp_gg := True\<rparr>"
  by (auto simp: Halo__initialize_pp_gg_def bindE_eq_Inr Let_def)

lemma init_pp_gg_returns:
  assumes "romberg_returns e" "constructed s"
  shows "\<exists>sp. Halo__initialize_pp_gg e s = Inr (s\<lparr>pp_gg_spline := Some sp, initialized_pp_gg := True\<rparr>)"
proof -
  from n_bar_attrs_constructed[OF assms(2)] obtain v w
    where nb: "n_bar s = Some v" "n_bar_over_rho_bar s = Some w" by blast
  show ?thesis
    unfolding Halo__initialize_pp_gg_def Let_def
    apply (simp add: geometry_attrs_constructed[OF assms(2)] nb split del: if_split)
    apply (rule bindE_returns)
     apply (rule mapE_romberg_post[OF assms(1)])
    apply blast
    done
qed

lemma calculate_n_bar_shape:
  "Halo__calculate_n_bar e s = Inr s' \<Longrightarrow>
     \<exists>v. s' = s\<lparr>n_bar_over_rho_bar := Some v, n_bar := Some (v * rho_bar s)\<rparr>"
  by (auto simp: Halo__calculate_n_bar_def bindE_eq_Inr Let_def)

lemma calculate_n_bar_returns:
  assumes "romberg_returns e"
  shows "\<exists>v. Halo__calculate_n_bar e s =
              Inr (s\<lparr>n_bar_over_rho_bar := Some v, n_bar := Some (v * rho_bar s)\<rparr>)"
proof -
  obtain v where "integrate_romberg e (Halo__nbar_integrand s)
      (ln (if first_moment_zero (local_hod s) > - 1 \<and>
                       first_moment_zero (local_hod s) > exp (mf_ln_mass_min (mass s))
                    then mf_nu (mass s) (first_moment_zero (local_hod s)) else mf_nu_min (mass s)))
      (ln (mf_nu_max (mass s))) = Inr v"
    using integrate_romberg_returns[OF assms] by blast
  then show ?thesis
    by (auto simp: Halo__calculate_n_bar_def Let_def)
qed

lemma initialize_halo_splines_shape:
  "Halo__initialize_halo_splines e s = Inr s' \<Longrightarrow>
     \<exists>a b c. s' = s\<lparr>ln_r_v_spline := Some a, ln_concen_spline := Some b,
                     ln_halo_norm_spline := Some c\<rparr>"
  by (auto simp: Halo__initialize_halo_splines_def bindE_eq_Inr)

subsection \<open>The power spectra return\<close>

lemma constructed_update [simp]:
  "constructed (s\<lparr>h_m_spline := x0\<rparr>) = constructed s"
  "constructed (s\<lparr>h_g_spline := x1\<rparr>) = constructed s"
  "constructed (s\<lparr>pp_mm_spline := x2\<rparr>) = constructed s"
  "constructed (s\<lparr>pp_gm_spline := x3\<rparr>) = constructed s"
  "constructed (s\<lparr>pp_gg_spline := x4\<rparr>) = constructed s"
  "constructed (s\<lparr>initialized_h_m := x5\<rparr>) = constructed s"
  "constructed (s\<lparr>initialized_h_g := x6\<rparr>) = constructed s"
  "constructed (s\<lparr>initialized_pp_mm := x7\<rparr>) = constructed s"
  "constructed (s\<lparr>initialized_pp_gm := x8\<rparr>) = constructed s"
  "constructed (s\<lparr>initialized_pp_gg := x9\<rparr>) = constructed s"
  "constructed (s\<lparr>local_hod := x10\<rparr>) = constructed s"
  "constructed (s\<lparr>mass := x11\<rparr>) = constructed s"
  "constructed (s\<lparr>c0 := x12\<rparr>) = constructed s"
  "constructed (s\<lparr>beta := x13\<rparr>) = constructed s"
  "constructed (s\<lparr>alpha := x14\<rparr>) = constructed s"
  by (simp_all add: constructed_def)

lemma ensure_h_m_returns:
  assumes "romberg_returns e" "constructed s" "initialized_h_m s \<longrightarrow> h_m_spline s \<noteq> None"
  shows "\<exists>sp. (if \<not> initialized_h_m s then Halo__initialize_h_m e s else Inr s) =
              Inr (s\<lparr>h_m_spline := Some sp, initialized_h_m := True\<rparr>)"
proof (cases "initialized_h_m s")
  case True
  with assms(3) obtain sp where "h_m_spline s = Some sp" by auto
  with True have "s = s\<lparr>h_m_spline := Some sp, initialized_h_m := True\<rparr>" by simp
  with True show ?thesis by auto
next
  case False
  with init_h_m_returns[OF assms(1,2)] show ?thesis by simp
qed

lemma ensure_pp_mm_returns:
  assumes "romberg_returns e" "constructed s" "initialized_pp_mm s \<longrightarrow> pp_mm_spline s \<noteq> None"
  shows "\<exists>sp. (if \<not> initialized_pp_mm s then Halo__initialize_pp_mm e s else Inr s) =
              Inr (s\<lparr>pp_mm_spline := Some sp, initialized_pp_mm := True\<rparr>)"
proof (cases "initialized_pp_mm s")
  case True
  with assms(3) obtain sp where "pp_mm_spline s = Some sp" by auto
  with True have "s = s\<lparr>pp_mm_spline := Some sp, initialized_pp_mm := True\<rparr>" by simp
  with True show ?thesis by auto
next
  case False
  with init_pp_mm_returns[OF assms(1,2)] show ?thesis by simp
qed


lemma ensure_excl_h_g_returns:
  assumes "romberg_returns e" "constructed s" "initialized_h_g s \<longrightarrow> h_g_spline s \<noteq> None"
  shows "\<exists>sp. (if \<not> initialized_h_g s then HaloExclusion__initialize_h_g e s else Inr s) =
              Inr (s\<lparr>h_g_spline := Some sp, initialized_h_g := True\<rparr>)"
proof (cases "initialized_h_g s")
  case True
  with assms(3) obtain sp where "h_g_spline s = Some sp" by auto
  with True have "s = s\<lparr>h_g_spline := Some sp, initialized_h_g := True\<rparr>" by simp
  with True show ?thesis by auto
next
  case False
  with excl_init_h_g_returns[OF assms(1,2)] show ?thesis by simp
qed


lemma ensure_pp_gg_returns:
  assumes "romberg_returns e" "constructed s" "initialized_pp_gg s \<longrightarrow> pp_gg_spline s \<noteq> None"
  shows "\<exists>sp. (if \<not> initialized_pp_gg s then Halo__initialize_pp_gg e s else Inr s) =
              Inr (s\<lparr>pp_gg_spline := Some sp, initialized_pp_gg := True\<rparr>)"
proof (cases "initialized_pp_gg s")
  case True
  with assms(3) obtain sp where "pp_gg_spline s = Some sp" by auto
  with True have "s = s\<lparr>pp_gg_spline := Some sp, initialized_pp_gg := True\<rparr>" by simp
  with True show ?thesis by auto
next
  case False
  with init_pp_gg_returns[OF assms(1,2)] show ?thesis by simp
qed

lemma term_read_Some:
  "term_read name (Some sp) s k = Inr (if k_min s \<le> k \<and> k \<le> k_max s then sp (ln k) else 0)"
  by (simp add: term_read_def)

lemmas term_reads = Halo__h_m_def Halo__h_g_def Halo__pp_mm_def Halo__pp_gm_def Halo__pp_gg_def


lemma Halo_power_mm_returns:
  assumes "romberg_returns e" "constructed s"
    "initialized_h_m s \<longrightarrow> h_m_spline s \<noteq> None"
    "initialized_pp_mm s \<longrightarrow> pp_mm_spline s \<noteq> None"
  shows "\<exists>v hm pp. Halo_power_mm e s k =
           Inr (v, s\<lparr>h_m_spline := Some hm, initialized_h_m := True,
                      pp_mm_spline := Some pp, initialized_pp_mm := True\<rparr>)"
proof -
  from ensure_h_m_returns[OF assms(1,2,3)] obtain hm where
    1: "(if \<not> initialized_h_m s then Halo__initialize_h_m e s else Inr s) =
              Inr (s\<lparr>h_m_spline := Some hm, initialized_h_m := True\<rparr>)" by blast
  let ?s1 = "s\<lparr>h_m_spline := Some hm, initialized_h_m := True\<rparr>"
  have "constructed ?s1" "initialized_pp_mm ?s1 \<longrightarrow> pp_mm_spline ?s1 \<noteq> None"
    using assms by simp_all
  from ensure_pp_mm_returns[OF assms(1) this] obtain pp where
    2: "(if \<not> initialized_pp_mm ?s1 then Halo__initialize_pp_mm e ?s1 else Inr ?s1) =
              Inr (?s1\<lparr>pp_mm_spline := Some pp, initialized_pp_mm := True\<rparr>)" by blast
  show ?thesis
    unfolding Halo_power_mm_def 1 bindE_Inr 2
    by (simp add: term_reads term_read_Some) blast
qed



lemma HaloExclusion_power_gg_returns:
  assumes "romberg_returns e" "constructed s"
    "initialized_h_m s \<longrightarrow> h_m_spline s \<noteq> None"
    "initialized_pp_mm s \<longrightarrow> pp_mm_spline s \<noteq> None"
    "initialized_h_g s \<longrightarrow> h_g_spline s \<noteq> None"
    "initialized_pp_gg s \<longrightarrow> pp_gg_spline s \<noteq> None"
  shows "\<exists>v hg pgg hm pmm. HaloExclusion_power_gg e s k =
           Inr (v, s\<lparr>h_g_spline := Some hg, initialized_h_g := True,
                      pp_gg_spline := Some pgg, initialized_pp_gg := True,
                      h_m_spline := Some hm, initialized_h_m := True,
                      pp_mm_spline := Some pmm, initialized_pp_mm := True\<rparr>)"
proof -
  from ensure_excl_h_g_returns[OF assms(1,2,5)] obtain hg where
    1: "(if \<not> initialized_h_g s then HaloExclusion__initialize_h_g e s else Inr s) =
              Inr (s\<lparr>h_g_spline := Some hg, initialized_h_g := True\<rparr>)" by blast
  let ?s1 = "s\<lparr>h_g_spline := Some hg, initialized_h_g := True\<rparr>"
  have "constructed ?s1" "initialized_pp_gg ?s1 \<longrightarrow> pp_gg_spline ?s1 \<noteq> None"
    using assms by simp_all
  from ensure_pp_gg_returns[OF assms(1) this] obtain pgg where
    2: "(if \<not> initialized_pp_gg ?s1 then Halo__initialize_pp_gg e ?s1 else Inr ?s1) =
              Inr (?s1\<lparr>pp_gg_spline := Some pgg, initialized_pp_gg := True\<rparr>)" by blast
  let ?s2 = "?s1\<lparr>pp_gg_spline := Some pgg, initialized_pp_gg := True\<rparr>"
  have "constructed ?s2" "initialized_h_m ?s2 \<longrightarrow> h_m_spline ?s2 \<noteq> None"
    "initialized_pp_mm ?s2 \<longrightarrow> pp_mm_spline ?s2 \<noteq> None"
    using assms by simp_all
  from Halo_power_mm_returns[OF assms(1) this] obtain p hm pmm where
    3: "Halo_power_mm e ?s2 k =
           Inr (p, ?s2\<lparr>h_m_spline := Some hm, initialized_h_m := True,
                      pp_mm_spline := Some pmm, initialized_pp_mm := True\<rparr>)" by blast
  show ?thesis
    unfolding HaloExclusion_power_gg_def HaloExclusion_power_mm_def 1 bindE_Inr 2 3
    by (simp add: term_reads term_read_Some) blast
qed

subsection \<open>What a returned power spectrum tells about the caches\<close>

lemmas c_defs = c_env_def c_halo_dict_def c_mass_def c_hod_def c_cosmology_def c_precision_def
lemmas init_defs = Halo_init_def getitem_def Halo__calculate_n_bar_def
     integrate_romberg_def Halo__initialize_halo_splines_def linspace_def Let_def

lemma ensure_h_m:
  assumes "(if \<not> initialized_h_m s then Halo__initialize_h_m e s else Inr s) = Inr s'"
  shows "initialized_h_m s'"
    and "\<exists>sp. s' = s \<or> s' = s\<lparr>h_m_spline := Some sp, initialized_h_m := True\<rparr>"
  using assms by (auto split: if_splits dest: init_h_m_shape)

lemma ensure_pp_mm:
  assumes "(if \<not> initialized_pp_mm s then Halo__initialize_pp_mm e s else Inr s) = Inr s'"
  shows "initialized_pp_mm s'"
    and "\<exists>sp. s' = s \<or> s' = s\<lparr>pp_mm_spline := Some sp, initialized_pp_mm := True\<rparr>"
  using assms by (auto split: if_splits dest: init_pp_mm_shape)

lemma ensure_h_g:
  assumes "(if \<not> initialized_h_g s then Halo__initialize_h_g e s else Inr s) = Inr s'"
  shows "initialized_h_g s'"
    and "\<exists>sp. s' = s \<or> s' = s\<lparr>h_g_spline := Some sp, initialized_h_g := True\<rparr>"
  using assms by (auto split: if_splits dest: init_h_g_shape)

lemma ensure_pp_gm:
  assumes "(if \<not> initialized_pp_gm s then Halo__initialize_pp_gm e s else Inr s) = Inr s'"
  shows "initialized_pp_gm s'"
    and "\<exists>sp. s' = s \<or> s' = s\<lparr>pp_gm_spline := Some sp, initialized_pp_gm := True\<rparr>"
  using assms by (auto split: if_splits dest: init_pp_gm_shape)

lemma ensure_pp_gg:
  assumes "(if \<not> initialized_pp_gg s then Halo__initialize_pp_gg e s else Inr s) = Inr s'"
  shows "initialized_pp_gg s'"
    and "\<exists>sp. s' = s \<or> s' = s\<lparr>pp_gg_spline := Some sp, initialized_pp_gg := True\<rparr>"
  using assms by (auto split: if_splits dest: init_pp_gg_shape)

lemma term_read_Inr: "term_read name spl s k = Inr v \<Longrightarrow> spl \<noteq> None"
  by (cases spl) (simp_all add: term_read_def)

lemma power_mm_Inr:
  assumes "Halo_power_mm e s k = Inr (v, s')"
  shows "initialized_h_m s' \<and> initialized_pp_mm s' \<and>
         (\<exists>hm pp. Halo__h_m s' k = Inr hm \<and> Halo__pp_mm s' k = Inr pp \<and>
                  v = Halo_linear_power s' k * hm * hm + pp)"
proof -
  from assms obtain s1 s2 hm1 hm2 pp where
    s1: "(if \<not> initialized_h_m s then Halo__initialize_h_m e s else Inr s) = Inr s1" and
    s2: "(if \<not> initialized_pp_mm s1 then Halo__initialize_pp_mm e s1 else Inr s1) = Inr s2" and
    r: "Halo__h_m s2 k = Inr hm1" "Halo__h_m s2 k = Inr hm2" "Halo__pp_mm s2 k = Inr pp" and
    v: "v = Halo_linear_power s2 k * hm1 * hm2 + pp" and s': "s' = s2"
    unfolding Halo_power_mm_def bindE_eq_Inr by auto
  from ensure_h_m[OF s1] ensure_pp_mm[OF s2] have "initialized_h_m s2" "initialized_pp_mm s2"
    by auto
  with r v s' show ?thesis by auto
qed


lemma power_gm_Inr:
  assumes "Halo_power_gm e s k = Inr (v, s')"
  shows "initialized_h_m s' \<and> initialized_h_g s' \<and> initialized_pp_gm s' \<and>
         (\<exists>hg hm pp. Halo__h_g s' k = Inr hg \<and> Halo__h_m s' k = Inr hm \<and>
                  Halo__pp_gm s' k = Inr pp \<and> v = Halo_linear_power s' k * hg * hm + pp)"
proof -
  from assms obtain s1 s2 s3 hg hm pp where
    s1: "(if \<not> initialized_h_m s then Halo__initialize_h_m e s else Inr s) = Inr s1" and
    s2: "(if \<not> initialized_h_g s1 then Halo__initialize_h_g e s1 else Inr s1) = Inr s2" and
    s3: "(if \<not> initialized_pp_gm s2 then Halo__initialize_pp_gm e s2 else Inr s2) = Inr s3" and
    r: "Halo__h_g s3 k = Inr hg" "Halo__h_m s3 k = Inr hm" "Halo__pp_gm s3 k = Inr pp" and
    v: "v = Halo_linear_power s3 k * hg * hm + pp" and s': "s' = s3"
    unfolding Halo_power_gm_def bindE_eq_Inr by auto
  from ensure_h_m[OF s1] ensure_h_g[OF s2] ensure_pp_gm[OF s3]
  have "initialized_h_m s3" "initialized_h_g s3" "initialized_pp_gm s3"
    by auto
  with r v s' show ?thesis by auto
qed

lemma power_gg_Inr:
  assumes "Halo_power_gg e s k = Inr (v, s')"
  shows "initialized_h_g s' \<and> initialized_pp_gg s' \<and>
         (\<exists>hg pp. Halo__h_g s' k = Inr hg \<and> Halo__pp_gg s' k = Inr pp \<and>
                  v = Halo_linear_power s' k * hg * hg + pp)"
proof -
  from assms obtain s1 s2 hg1 hg2 pp where
    s1: "(if \<not> initialized_h_g s then Halo__initialize_h_g e s else Inr s) = Inr s1" and
    s2: "(if \<not> initialized_pp_gg s1 then Halo__initialize_pp_gg e s1 else Inr s1) = Inr s2" and
    r: "Halo__h_g s2 k = Inr hg1" "Halo__h_g s2 k = Inr hg2" "Halo__pp_gg s2 k = Inr pp" and
    v: "v = Halo_linear_power s2 k * hg1 * hg2 + pp" and s': "s' = s2"
    unfolding Halo_power_gg_def bindE_eq_Inr by auto
  from ensure_h_g[OF s1] ensure_pp_gg[OF s2] have "initialized_h_g s2" "initialized_pp_gg s2"
    by auto
  with r v s' show ?thesis by auto
qed

lemma Inr_projr: "x = Inr s \<Longrightarrow> x = Inr (projr x)"
  by simp

lemma c_halo_returns: "c_halo = Inr c_state"
proof -
  have "\<exists>s. c_halo = Inr s"
    by (simp add: c_halo_def c_defs init_defs)
  then show ?thesis unfolding c_state_def by (auto intro: Inr_projr)
qed

lemma Halo_init_Inr:
  assumes "Halo_init e ext z ih cs mf hdo = Inr s"
  shows "constructed s"
    and "\<not> initialized_h_m s \<and> \<not> initialized_h_g s \<and> \<not> initialized_pp_mm s \<and>
         \<not> initialized_pp_gm s \<and> \<not> initialized_pp_gg s"
    and "h_m_spline s = None \<and> h_g_spline s = None \<and> pp_mm_spline s = None \<and>
         pp_gm_spline s = None \<and> pp_gg_spline s = None"
    and "ln_halo_norm_spline s \<noteq> None"
  using assms
  unfolding Halo_init_def Let_def bindE_eq_Inr
  by (auto dest!: calculate_n_bar_shape initialize_halo_splines_shape simp: constructed_def)

lemma Halo_init_args:
  assumes "Halo_init e ext z (Some ih) (Some cs) (Some mf) (Some hdo) = Inr s"
  shows "local_hod s = ih" "cosmo s = cs" "mass s = mf" "halo_dict s = hdo"
    "k_min s = 0.001" "k_max s = 100" "redshift s = z" "rho_bar s = cosmo_rho_bar cs"
    "halo.more s = ext"
  using assms
  unfolding Halo_init_def Let_def bindE_eq_Inr
  by (auto dest!: calculate_n_bar_shape initialize_halo_splines_shape)

lemmas c_state_init = c_halo_returns[unfolded c_halo_def]


subsection \<open>The exclusion variant returns\<close>

lemma c_halo_exclusion_returns: "c_halo_exclusion = Inr c_exclusion_state"
proof -
  have "\<exists>s. c_halo_exclusion = Inr s"
    by (simp add: c_halo_exclusion_def HaloExclusion_init_def c_defs init_defs)
  then show ?thesis unfolding c_exclusion_state_def by (auto intro: Inr_projr)
qed

lemmas c_exclusion_state_init =
  c_halo_exclusion_returns[unfolded c_halo_exclusion_def HaloExclusion_init_def]




lemma fresh_state_ready:
  assumes "Halo_init e ext z ih cs mf hdo = Inr s"
  shows "initialized_h_m s \<longrightarrow> h_m_spline s \<noteq> None"
    "initialized_pp_mm s \<longrightarrow> pp_mm_spline s \<noteq> None"
    "initialized_h_g s \<longrightarrow> h_g_spline s \<noteq> None"
    "initialized_pp_gm s \<longrightarrow> pp_gm_spline s \<noteq> None"
    "initialized_pp_gg s \<longrightarrow> pp_gg_spline s \<noteq> None"
  using Halo_init_Inr(2)[OF assms] by simp_all

subsection \<open>The probe quadrature and the lower limit of \<open>h_g\<close>\<close>

lemma Halo_init_grid:
  assumes "Halo_init e ext z ih cs mf hdo = Inr s"
  shows "ln_k_array s = linspace (ln 0.001) (ln 100) (halo_npoints (default_precision e))"
  using assms
  unfolding Halo_init_def Let_def bindE_eq_Inr
  by (auto dest!: calculate_n_bar_shape initialize_halo_splines_shape)

lemma mapE_const: "mapE (\<lambda>x. Inr c) xs = Inr (map (\<lambda>x. c) xs)"
  by (induction xs) simp_all

lemma c_grid_nonempty: "ln_k_array c_state \<noteq> []"
  by (simp add: Halo_init_grid[OF c_state_init] linspace_def c_env_def c_precision_def)

lemma first_sample_const:
  "xs \<noteq> [] \<Longrightarrow> (case map (\<lambda>x. c) xs of [] \<Rightarrow> 0 | y # _ \<Rightarrow> y) = (c::real)"
  by (cases xs) simp_all

lemma probe_romberg: "integrate_romberg probe_env f a b = Inr a"
  by (simp add: integrate_romberg_def probe_env_def)

lemma probe_spline:
  "InterpolatedUnivariateSpline probe_env xs ys k = (\<lambda>x. case ys of [] \<Rightarrow> 0 | y # _ \<Rightarrow> y)"
  by (simp add: probe_env_def c_env_def)

subsection \<open>Reads of \<open>pp_gm\<close> in the exclusion variant\<close>

lemmas y_defs = Halo_y_def Halo_concentration_def Halo_virial_radius_def

lemma map_sum_bindE: "map_sum id f (bindE m g) = bindE m (\<lambda>x. map_sum id f (g x))"
  by (cases m) simp_all

lemma h_g_build_ignores_threshold:
  "map_sum id h_g_spline
     (Halo__initialize_h_g e (s\<lparr>local_hod := (local_hod s)\<lparr>first_moment_zero := z\<rparr>\<rparr>)) =
   map_sum id h_g_spline (Halo__initialize_h_g e s)"
  by (simp add: Halo__initialize_h_g_def Halo__h_g_integrand_def y_defs geometry_attrs_def
        Let_def map_sum_bindE)

lemma exclusion_power_gm_reads_absent_pp_gm:
  assumes "romberg_returns e" "constructed s"
    "initialized_h_m s \<longrightarrow> h_m_spline s \<noteq> None"
    "initialized_pp_mm s \<longrightarrow> pp_mm_spline s \<noteq> None"
    "initialized_h_g s" "h_g_spline s \<noteq> None"
    "initialized_pp_gg s" "pp_gm_spline s = None"
  shows "HaloExclusion_power_gm e s k = Inl (AttributeError ''_pp_gm_spline'')"
proof -
  from Halo_power_mm_returns[OF assms(1,2,3,4)] obtain p hm pmm where
    3: "Halo_power_mm e s k =
           Inr (p, s\<lparr>h_m_spline := Some hm, initialized_h_m := True,
                      pp_mm_spline := Some pmm, initialized_pp_mm := True\<rparr>)" by blast
  from assms(6) obtain hg where hg: "h_g_spline s = Some hg" by auto
  show ?thesis
    unfolding HaloExclusion_power_gm_def HaloExclusion_power_mm_def
    by (simp add: assms(5,7,8) 3 term_reads term_read_Some hg term_read_def)
qed

lemma exclusion_power_gm_reads_stale_pp_gm:
  assumes "romberg_returns e" "constructed s"
    "initialized_h_m s \<longrightarrow> h_m_spline s \<noteq> None"
    "initialized_pp_mm s \<longrightarrow> pp_mm_spline s \<noteq> None"
    "initialized_h_g s" "h_g_spline s \<noteq> None"
    "initialized_pp_gg s" "pp_gm_spline s = Some stale" "\<not> initialized_pp_gm s"
  shows "\<exists>v s'. HaloExclusion_power_gm e s k = Inr (v, s') \<and>
            \<not> initialized_pp_gm s' \<and> pp_gm_spline s' = Some stale"
proof -
  from Halo_power_mm_returns[OF assms(1,2,3,4)] obtain p hm pmm where
    3: "Halo_power_mm e s k =
           Inr (p, s\<lparr>h_m_spline := Some hm, initialized_h_m := True,
                      pp_mm_spline := Some pmm, initialized_pp_mm := True\<rparr>)" by blast
  from assms(6) obtain hg where hg: "h_g_spline s = Some hg" by auto
  show ?thesis
    unfolding HaloExclusion_power_gm_def HaloExclusion_power_mm_def
    by (simp add: assms(5,7,8,9) 3 term_reads term_read_Some hg)
qed

subsection \<open>The mutators\<close>

lemma set_hod_shape:
  "Halo_set_hod e s hd' = Inr s' \<Longrightarrow>
     \<exists>v. s' = s\<lparr>local_hod := hd', n_bar_over_rho_bar := Some v, n_bar := Some (v * rho_bar s),
                  initialized_h_g := False, initialized_pp_mm := False,
                  initialized_pp_gm := False, initialized_pp_gg := False\<rparr>"
  by (auto simp: Halo_set_hod_def bindE_eq_Inr dest!: calculate_n_bar_shape)

lemma set_hod_returns:
  assumes "romberg_returns e"
  shows "\<exists>v. Halo_set_hod e s hd' =
     Inr (s\<lparr>local_hod := hd', n_bar_over_rho_bar := Some v, n_bar := Some (v * rho_bar s),
                  initialized_h_g := False, initialized_pp_mm := False,
                  initialized_pp_gm := False, initialized_pp_gg := False\<rparr>)"
proof -
  from calculate_n_bar_returns[OF assms, of "s\<lparr>local_hod := hd'\<rparr>"] obtain v where
    "Halo__calculate_n_bar e (s\<lparr>local_hod := hd'\<rparr>) =
       Inr (s\<lparr>local_hod := hd', n_bar_over_rho_bar := Some v, n_bar := Some (v * rho_bar s)\<rparr>)"
    by auto
  then show ?thesis by (auto simp: Halo_set_hod_def)
qed

lemma set_halo_shape:
  assumes "Halo_set_halo e s d = Inr s'"
  shows "\<exists>c b v. d ''c0'' = Some c \<and> d ''beta'' = Some b \<and>
     s' = s\<lparr>c0 := c / (1 + redshift s), beta := b, alpha := - 1,
            mass := mass_set_halo e d (mass s),
            n_bar_over_rho_bar := Some v, n_bar := Some (v * rho_bar s),
            initialized_h_g := False, initialized_pp_mm := False,
            initialized_pp_gm := False, initialized_pp_gg := False\<rparr>"
  using assms
  by (auto simp: Halo_set_halo_def bindE_eq_Inr getitem_def Let_def
        split: option.splits if_splits dest!: set_hod_shape)

lemma set_halo_returns:
  assumes "romberg_returns e" "d ''c0'' = Some c" "d ''beta'' = Some b" "1 + redshift s \<noteq> 0"
  shows "\<exists>v. Halo_set_halo e s d =
     Inr (s\<lparr>c0 := c / (1 + redshift s), beta := b, alpha := - 1,
            mass := mass_set_halo e d (mass s),
            n_bar_over_rho_bar := Some v, n_bar := Some (v * rho_bar s),
            initialized_h_g := False, initialized_pp_mm := False,
            initialized_pp_gm := False, initialized_pp_gg := False\<rparr>)"
proof -
  let ?s = "s\<lparr>c0 := c / (1 + redshift s), beta := b, alpha := - 1,
            mass := mass_set_halo e d (mass s)\<rparr>"
  from set_hod_returns[OF assms(1), of ?s "local_hod ?s"] obtain v where
    "Halo_set_hod e ?s (local_hod ?s) =
       Inr (?s\<lparr>local_hod := local_hod ?s, n_bar_over_rho_bar := Some v,
                n_bar := Some (v * rho_bar ?s),
                  initialized_h_g := False, initialized_pp_mm := False,
                  initialized_pp_gm := False, initialized_pp_gg := False\<rparr>)" by blast
  then show ?thesis
    using assms(2,3,4) by (auto simp: Halo_set_halo_def getitem_def Let_def)
qed

lemma Halo_init_c0:
  assumes "Halo_init e ext z ih cs mf (Some hdo) = Inr s"
  shows "\<exists>c. hdo ''c0'' = Some c \<and> c0 s = c / (1 + z)"
  using assms
  unfolding Halo_init_def Let_def bindE_eq_Inr
  by (auto simp: getitem_def split: option.splits if_splits
        dest!: calculate_n_bar_shape initialize_halo_splines_shape)

subsection \<open>Rebuilding \<open>pp_mm\<close> from unchanged inputs\<close>




subsection \<open>The fitting formula of HaloFit\<close>






subsection \<open>Wavenumbers outside the cached domain\<close>

























subsection \<open>Errors of the quadrature and the constructor\<close>

lemma mapE_Inl:
  "x \<in> set xs \<Longrightarrow> f x = Inl err \<Longrightarrow> \<exists>err'. mapE f xs = Inl err'"
proof (induction xs)
  case Nil
  then show ?case by simp
next
  case (Cons y ys)
  show ?case
  proof (cases "f y")
    case (Inl a)
    then show ?thesis by simp
  next
    case (Inr b)
    show ?thesis
    proof (cases "x = y")
      case True
      with Cons.prems Inr show ?thesis by simp
    next
      case False
      with Cons obtain err' where "mapE f ys = Inl err'" by auto
      with Inr show ?thesis by simp
    qed
  qed
qed

lemma mapE_Inr_map:
  "(\<And>x. x \<in> set xs \<Longrightarrow> f x = Inr (g x)) \<Longrightarrow> mapE f xs = Inr (map g xs)"
  by (induction xs) simp_all

lemma mapE_Inr_all:
  "mapE f xs = Inr ys \<Longrightarrow> x \<in> set xs \<Longrightarrow> \<exists>y. f x = Inr y"
proof (induction xs arbitrary: ys)
  case Nil
  then show ?case by simp
next
  case (Cons a as)
  then show ?case by (auto simp: bindE_eq_Inr)
qed

lemma bindE_Inl_iff: "(\<exists>err. bindE m f = Inl err) \<longleftrightarrow> (\<exists>err. m = Inl err) \<or> (\<exists>x err. m = Inr x \<and> f x = Inl err)"
  by (cases m) auto




subsection \<open>One refinement level of the Romberg scheme\<close>










section \<open>The claims\<close>

subsection \<open>The constructor\<close>

text \<open>
  C10 (as amended). When \<^verbatim>\<open>Halo.__init__\<close> returns, the five term caches are
  uninitialised: their flags are cleared and no term spline exists; a term is built by the
  first \<^verbatim>\<open>power_*\<close> call that reads it. The mean galaxy density and the three geometry
  splines are not lazy: the constructor has computed them.
\<close>

theorem constructor_caches:
  assumes "Halo_init e ext z input_hod cosmo_single_epoch mass_func halo_dict_arg = Inr s"
  shows "\<not> initialized_h_m s \<and> \<not> initialized_h_g s \<and> \<not> initialized_pp_mm s \<and>
         \<not> initialized_pp_gm s \<and> \<not> initialized_pp_gg s \<and>
         h_m_spline s = None \<and> h_g_spline s = None \<and> pp_mm_spline s = None \<and>
         pp_gm_spline s = None \<and> pp_gg_spline s = None \<and>
         n_bar_over_rho_bar s \<noteq> None \<and> n_bar s \<noteq> None \<and>
         ln_r_v_spline s \<noteq> None \<and> ln_concen_spline s \<noteq> None \<and> ln_halo_norm_spline s \<noteq> None \<and>
         (\<forall>k v s'. Halo_power_mm e s k = Inr (v, s') \<longrightarrow>
            initialized_h_m s' \<and> initialized_pp_mm s' \<and>
            h_m_spline s' \<noteq> None \<and> pp_mm_spline s' \<noteq> None) \<and>
         (\<forall>k v s'. Halo_power_gm e s k = Inr (v, s') \<longrightarrow>
            initialized_h_g s' \<and> initialized_pp_gm s' \<and>
            h_g_spline s' \<noteq> None \<and> pp_gm_spline s' \<noteq> None) \<and>
         (\<forall>k v s'. Halo_power_gg e s k = Inr (v, s') \<longrightarrow>
            initialized_pp_gg s' \<and> pp_gg_spline s' \<noteq> None)"
proof -
  have mm: "initialized_h_m s' \<and> initialized_pp_mm s' \<and>
            h_m_spline s' \<noteq> None \<and> pp_mm_spline s' \<noteq> None"
    if "Halo_power_mm e s k = Inr (v, s')" for k v s'
    using power_mm_Inr[OF that] by (auto simp: term_reads dest: term_read_Inr)
  have gm: "initialized_h_g s' \<and> initialized_pp_gm s' \<and>
            h_g_spline s' \<noteq> None \<and> pp_gm_spline s' \<noteq> None"
    if "Halo_power_gm e s k = Inr (v, s')" for k v s'
    using power_gm_Inr[OF that] by (auto simp: term_reads dest: term_read_Inr)
  have gg: "initialized_pp_gg s' \<and> pp_gg_spline s' \<noteq> None"
    if "Halo_power_gg e s k = Inr (v, s')" for k v s'
    using power_gg_Inr[OF that] by (auto simp: term_reads dest: term_read_Inr)
  from Halo_init_Inr[OF assms] mm gm gg show ?thesis
    unfolding constructed_def by blast
qed

text \<open>The constructor returns on the concrete configuration, with these caches.\<close>

theorem constructor_caches_witness:
  "Halo_init c_env () 0 (Some c_hod) (Some c_cosmology) (Some c_mass) (Some c_halo_dict)
     = Inr c_state \<and>
   \<not> initialized_h_m c_state \<and> pp_gg_spline c_state = None \<and> n_bar c_state \<noteq> None \<and>
   ln_concen_spline c_state \<noteq> None"
  using constructor_caches[OF c_state_init] c_state_init by blast

text \<open>
  C10 as stated fails: right after construction \<^verbatim>\<open>n_bar\<close> and the geometry splines
  exist already.
\<close>

theorem constructor_eager_counterexample:
  "map_sum id (\<lambda>s. (n_bar s \<noteq> None, ln_r_v_spline s \<noteq> None, ln_concen_spline s \<noteq> None,
                     ln_halo_norm_spline s \<noteq> None)) c_halo = Inr (True, True, True, True)"
proof -
  from Halo_init_Inr(1,4)[OF c_state_init]
  have "constructed c_state" "ln_halo_norm_spline c_state \<noteq> None" .
  then show ?thesis
    by (simp add: c_halo_returns constructed_def)
qed

subsection \<open>The mean galaxy density of a degenerate HOD\<close>




subsection \<open>The Poisson rule of the 1-halo galaxy integrands\<close>

text \<open>
  C8. In the galaxy-matter integrand the profile transform \<open>y\<close> enters to the first power
  where the first moment \<open>N1\<close> at that mass is below 1 and squared otherwise; the
  galaxy-galaxy integrand does the same with the second moment \<open>N2\<close>.
\<close>

theorem poisson_power_rule:
  "Halo__pp_gm_integrand e s ln_nu ln_k =
     (let nu = exp ln_nu; m = mf_mass (mass s) nu; N1 = first_moment (local_hod s) m
      in nu * mf_f_nu (mass s) nu * N1 *
           (if N1 < 1 then Halo_y e s ln_k m else (Halo_y e s ln_k m)\<^sup>2)) \<and>
   Halo__pp_gg_integrand e s ln_nu ln_k =
     (let nu = exp ln_nu; m = mf_mass (mass s) nu; N2 = second_moment (local_hod s) m
      in nu * mf_f_nu (mass s) nu * N2 *
           (if N2 < 1 then Halo_y e s ln_k m else (Halo_y e s ln_k m)\<^sup>2)
           / (m * the (n_bar s) * the (n_bar s)))"
  by (simp add: Halo__pp_gm_integrand_def Halo__pp_gg_integrand_def Let_def power2_eq_square)

text \<open>
  On the concrete object, at \<open>nu = 4\<close>, where \<open>N1 = 1/2\<close>: the integrand is
  \<open>nu f(nu) N1 = 2\<close> times a single \<open>y\<close>.
\<close>

theorem poisson_power_rule_witness:
  "Halo__pp_gm_integrand c_env c_state (ln 4) 0 = 2 * Halo_y c_env c_state 0 4"
  using poisson_power_rule[of c_env c_state "ln 4" 0] Halo_init_args(1,3)[OF c_state_init]
  by (simp add: c_hod_def c_mass_def)

subsection \<open>The exclusion variant\<close>



subsection \<open>The lower cutoff of the \<open>h_g\<close> integral\<close>

text \<open>
  C7 says that the \<open>h_g\<close> integrals start at \<open>nu(first_moment_zero)\<close> whenever that
  threshold exceeds the minimum mass. \<^verbatim>\<open>Halo._initialize_h_g\<close> computes this raised
  limit and then does not pass it on: on the concrete object, whose threshold 3 exceeds
  the minimum mass 1, the quadrature is called with the lower limit \<open>ln nu_min = 0\<close>,
  where the raised limit is \<open>ln 2\<close>. The override \<^verbatim>\<open>HaloExclusion._initialize_h_g\<close>
  passes the raised limit. The probe quadrature returns the lower limit it is given, so
  the fitted spline shows it.
\<close>

theorem h_g_lower_limit_not_raised:
  "- 1 < first_moment_zero (local_hod c_state) \<and>
   exp (mf_ln_mass_min (mass c_state)) < first_moment_zero (local_hod c_state) \<and>
   ln (mf_nu (mass c_state) (first_moment_zero (local_hod c_state))) = ln 2 \<and>
   ln (mf_nu_min (mass c_state)) = 0 \<and>
   map_sum id (\<lambda>s. map_option (\<lambda>sp. sp 0) (h_g_spline s))
     (Halo__initialize_h_g probe_env c_state) = Inr (Some 0) \<and>
   map_sum id (\<lambda>s. map_option (\<lambda>sp. sp 0) (h_g_spline s))
     (HaloExclusion__initialize_h_g probe_env c_state) = Inr (Some (ln 2))"
proof -
  note a = Halo_init_args(1,3)[OF c_state_init]
  have g: "geometry_attrs c_state = Inr ()"
    by (rule geometry_attrs_constructed[OF Halo_init_Inr(1)[OF c_state_init]])
  from n_bar_attrs_constructed[OF Halo_init_Inr(1)[OF c_state_init]] obtain v w
    where nb: "n_bar c_state = Some v" "n_bar_over_rho_bar c_state = Some w" by blast
  have 1: "- 1 < first_moment_zero (local_hod c_state)"
    "exp (mf_ln_mass_min (mass c_state)) < first_moment_zero (local_hod c_state)"
    "ln (mf_nu (mass c_state) (first_moment_zero (local_hod c_state))) = ln 2"
    "ln (mf_nu_min (mass c_state)) = 0"
    by (simp_all add: a c_hod_def c_mass_def)
  have 2: "map_sum id (\<lambda>s. map_option (\<lambda>sp. sp 0) (h_g_spline s))
     (Halo__initialize_h_g probe_env c_state) = Inr (Some 0)"
    by (simp add: Halo__initialize_h_g_def Let_def g nb probe_romberg mapE_const probe_spline
          first_sample_const[OF c_grid_nonempty] 1 split del: if_split)
  have 3: "map_sum id (\<lambda>s. map_option (\<lambda>sp. sp 0) (h_g_spline s))
     (HaloExclusion__initialize_h_g probe_env c_state) = Inr (Some (ln 2))"
    by (simp add: HaloExclusion__initialize_h_g_def Let_def g nb probe_romberg mapE_const
          probe_spline first_sample_const[OF c_grid_nonempty] 1)
  from 1 2 3 show ?thesis by blast
qed

subsection \<open>Reading a term whose flag is unset\<close>

text \<open>
  C3 says that no \<^verbatim>\<open>power_*\<close> call reads a term spline whose flag is unset.
  \<^verbatim>\<open>HaloExclusion.power_gm\<close> tests the flag of \<open>pp_gg\<close> where it should test the flag
  of \<open>pp_gm\<close>: on a fresh exclusion object, \<^verbatim>\<open>power_gg(1)\<close> followed by
  \<^verbatim>\<open>power_gm(1)\<close> reads the spline of \<open>pp_gm\<close>, which was never built.
\<close>

theorem exclusion_power_gm_unchecked_read:
  "bindE c_halo_exclusion (\<lambda>s.
     bindE (HaloExclusion_power_gg c_env s 1) (\<lambda>(v, s).
       HaloExclusion_power_gm c_env s 1)) = Inl (AttributeError ''_pp_gm_spline'')"
proof -
  note i = c_exclusion_state_init
  from HaloExclusion_power_gg_returns[OF c_env_returns Halo_init_Inr(1)[OF i]
        fresh_state_ready(1,2,3,5)[OF i], of 1]
  obtain v hg pgg hm pmm where gg: "HaloExclusion_power_gg c_env c_exclusion_state 1 =
           Inr (v, c_exclusion_state\<lparr>h_g_spline := Some hg, initialized_h_g := True,
                      pp_gg_spline := Some pgg, initialized_pp_gg := True,
                      h_m_spline := Some hm, initialized_h_m := True,
                      pp_mm_spline := Some pmm, initialized_pp_mm := True\<rparr>)" by blast
  let ?s = "c_exclusion_state\<lparr>h_g_spline := Some hg, initialized_h_g := True,
                      pp_gg_spline := Some pgg, initialized_pp_gg := True,
                      h_m_spline := Some hm, initialized_h_m := True,
                      pp_mm_spline := Some pmm, initialized_pp_mm := True\<rparr>"
  have "HaloExclusion_power_gm c_env ?s 1 = Inl (AttributeError ''_pp_gm_spline'')"
    by (rule exclusion_power_gm_reads_absent_pp_gm[OF c_env_returns])
       (simp_all add: Halo_init_Inr(1)[OF i] Halo_init_Inr(3)[OF i])
  then show ?thesis
    by (simp add: c_halo_exclusion_returns gg)
qed

subsection \<open>Changing the halo-shape parameters\<close>

text \<open>
  C2 says that \<^verbatim>\<open>set_halo\<close> invalidates the geometry splines and all five terms.
  The code reassigns \<open>c0\<close>, \<open>beta\<close> and \<open>alpha\<close>, updates the mass function and calls
  \<^verbatim>\<open>set_hod\<close>; it neither calls \<^verbatim>\<open>_initialize_halo_splines\<close> nor clears the flag of
  \<open>h_m\<close>, as \<^verbatim>\<open>set_cosmology\<close> does. On the concrete object, after \<^verbatim>\<open>power_mm(1)\<close>
  and \<^verbatim>\<open>set_halo\<close> with \<open>c0 = 5\<close> in place of 9, \<open>h_m\<close> is still flagged valid with the
  spline it had, and the three geometry splines are the ones the constructor fitted.
\<close>

theorem set_halo_keeps_stale_caches:
  "bindE c_halo (\<lambda>s0.
     bindE (Halo_power_mm c_env s0 1) (\<lambda>(v, s1).
     bindE (Halo_set_halo c_env s1 c_halo_dict2) (\<lambda>s2.
       Inr (c0 s0, c0 s2, initialized_h_m s2, h_m_spline s2 = h_m_spline s1,
            ln_concen_spline s2 = ln_concen_spline s0,
            ln_r_v_spline s2 = ln_r_v_spline s0,
            ln_halo_norm_spline s2 = ln_halo_norm_spline s0))))
   = Inr (9, 5, True, True, True, True, True)"
proof -
  note i = c_state_init
  from Halo_power_mm_returns[OF c_env_returns Halo_init_Inr(1)[OF i] fresh_state_ready(1,2)[OF i], of 1]
  obtain v hm pp where mm: "Halo_power_mm c_env c_state 1 =
           Inr (v, c_state\<lparr>h_m_spline := Some hm, initialized_h_m := True,
                      pp_mm_spline := Some pp, initialized_pp_mm := True\<rparr>)" by blast
  let ?s1 = "c_state\<lparr>h_m_spline := Some hm, initialized_h_m := True,
                      pp_mm_spline := Some pp, initialized_pp_mm := True\<rparr>"
  have z: "redshift c_state = 0" by (rule Halo_init_args(7)[OF i])
  have "c_halo_dict2 ''c0'' = Some 5" "c_halo_dict2 ''beta'' = Some (- 0.2)"
    "1 + redshift ?s1 \<noteq> 0"
    by (simp_all add: c_halo_dict2_def z)
  from set_halo_returns[OF c_env_returns this] obtain w where
    sh: "Halo_set_halo c_env ?s1 c_halo_dict2 =
     Inr (?s1\<lparr>c0 := 5 / (1 + redshift ?s1), beta := - 0.2, alpha := - 1,
            mass := mass_set_halo c_env c_halo_dict2 (mass ?s1),
            n_bar_over_rho_bar := Some w, n_bar := Some (w * rho_bar ?s1),
            initialized_h_g := False, initialized_pp_mm := False,
            initialized_pp_gm := False, initialized_pp_gg := False\<rparr>)" by blast
  have c: "c0 c_state = 9"
    using Halo_init_c0[OF i] by (simp add: c_halo_dict_def)
  show ?thesis
    by (simp add: c_halo_returns mm sh c z)
qed

subsection \<open>Changing the HOD\<close>




subsection \<open>Wavenumbers outside the cached domain\<close>




subsection \<open>A quadrature that does not converge\<close>




end
